theory Spec2Isabelle
  imports Complex_Main "HOL-Library.Word"
begin

section \<open>Data model of scripts/process4.py\<close>

text \<open>
  The script reads entries of ZIP archives, checks that each one opens as a PDF, classifies
  it as scanned or text-bearing, recompresses text-bearing ones with Ghostscript and writes
  every entry below one of three output roots.

  Byte strings are lists of 8-bit words. Page text is a Python \<open>str\<close>, modelled as a list
  of Unicode code points, because \<open>str.strip\<close> is defined on code points. Status and error
  messages are \<open>string\<close>s. Every handler of the script is \<open>except Exception as e\<close> and uses
  only \<open>str(e)\<close>, so an exception is modelled by its message; what is not an \<open>Exception\<close>
  (\<open>KeyboardInterrupt\<close>, \<open>SystemExit\<close>) is not modelled. Sizes are Python floats
  (\<open>len(...) / 1024\<close>); they are modelled in exact real arithmetic, so the rounding of the
  ratio computation is not part of the model.
\<close>

type_synonym byte = "8 word"
type_synonym bytes = "byte list"
type_synonym exn = string
type_synonym pystr = "nat list"

text \<open>
  A \<open>pathlib\<close> path is the list of its \<open>parts\<close>; an absolute POSIX path has the part
  \<open>''/''\<close> first, as \<open>PurePosixPath.parts\<close> has it.
\<close>

type_synonym path = "string list"

text \<open>
  The document capability of PyMuPDF as the script uses it: a document has a page count,
  a page is loaded by index, and a page yields its text and its list of images. Each of
  these calls may raise.
\<close>

record page =
  get_text :: "exn + pystr"
  get_images :: "exn + nat list"

type_synonym document = "(exn + page) list"

text \<open>
  The output file system: the contents of the files, the directories made, and the trace
  of the completed \<open>write_bytes\<close> calls in order.
\<close>

record world =
  files :: "path \<rightharpoonup> bytes"
  dirs :: "path set"
  writes :: "(path \<times> bytes) list"

text \<open>
  Everything outside the script is a field of the environment: the archive reader, the
  PDF opener, the random generator behind \<open>random.sample\<close>, the Ghostscript process
  (\<open>Popen\<close> and \<open>communicate\<close>: an exception, or return code, standard output and standard
  error), the decoder of the diagnostic stream, and the faults of \<open>mkdir\<close> and
  \<open>write_bytes\<close>, which may depend on the state of the file system.
\<close>

record env =
  zip_read :: "path \<Rightarrow> string \<Rightarrow> exn + bytes"
  fitz_open :: "bytes \<Rightarrow> exn + document"
  rng :: "nat \<Rightarrow> nat \<Rightarrow> nat list"
  gs :: "bytes \<Rightarrow> exn + (int \<times> bytes \<times> bytes)"
  decode :: "bytes \<Rightarrow> exn + string"
  mkdir_fault :: "world \<Rightarrow> path \<Rightarrow> exn option"
  write_fault :: "world \<Rightarrow> path \<Rightarrow> bytes \<Rightarrow> exn option"

text \<open>The result dictionary of \<open>process_file\<close>, with its seven keys.\<close>

record result =
  zip_name :: string
  file_path :: string
  status :: string
  original_size :: real
  compressed_size :: real
  compression_ratio :: real
  error :: string

section \<open>pathlib\<close>

definition is_absolute :: "path \<Rightarrow> bool" where
  "is_absolute p = (case p of [] \<Rightarrow> False | a # _ \<Rightarrow> a = ''/'')"

text \<open>\<open>p / q\<close>: an absolute right operand replaces the left one.\<close>

definition joinpath :: "path \<Rightarrow> path \<Rightarrow> path" where
  "joinpath p q = (if is_absolute q then q else p @ q)"

definition parent :: "path \<Rightarrow> path" where
  "parent p = (if p = [''/''] then p else butlast p)"

definition path_name :: "path \<Rightarrow> string" where
  "path_name p = (if p = [] \<or> p = [''/''] then [] else last p)"

text \<open>
  \<open>stem\<close>: the name up to its last dot, when that dot is neither the first nor the last
  character (\<open>i = name.rfind('.')\<close>, \<open>name[:i] if 0 < i < len(name) - 1 else name\<close>).
  With \<open>rest\<close> the reversed name from its last dot on, \<open>i\<close> is the length of \<open>tl rest\<close>.
\<close>

definition stem :: "path \<Rightarrow> string" where
  "stem p =
     (let nm = path_name p;
          ext = takeWhile (\<lambda>c. c \<noteq> CHR ''.'') (rev nm);
          rest = dropWhile (\<lambda>c. c \<noteq> CHR ''.'') (rev nm)
      in if rest = [] \<or> tl rest = [] \<or> ext = [] then nm else rev (tl rest))"

text \<open>
  A string without a slash read as a path (the right operand of \<open>dir / zip_name\<close>):
  the empty string and \<open>.\<close> have no parts.
\<close>

definition str_path :: "string \<Rightarrow> path" where
  "str_path s = (if s = [] \<or> s = ''.'' then [] else [s])"

fun join_slash :: "string list \<Rightarrow> string" where
  "join_slash [] = []"
| "join_slash [a] = a"
| "join_slash (a # b # bs) = a @ ''/'' @ join_slash (b # bs)"

text \<open>\<open>str(path)\<close>.\<close>

definition path_str :: "path \<Rightarrow> string" where
  "path_str p =
     (if p = [] then ''.''
      else if is_absolute p then ''/'' @ join_slash (tl p)
      else join_slash p)"

text \<open>The directories that \<open>mkdir(parents=True, exist_ok=True)\<close> makes sure exist.\<close>

definition ancestors :: "path \<Rightarrow> path list" where
  "ancestors d = map (\<lambda>n. take n d) [1..<Suc (length d)]"

section \<open>Writing a file\<close>

definition mkdir_parents :: "env \<Rightarrow> path \<Rightarrow> world \<Rightarrow> (exn + unit) \<times> world" where
  "mkdir_parents E d w =
     (case mkdir_fault E w d of
        Some e \<Rightarrow> (Inl e, w)
      | None \<Rightarrow> (Inr (), w\<lparr>dirs := dirs w \<union> set (ancestors d)\<rparr>))"

definition write_bytes :: "env \<Rightarrow> path \<Rightarrow> bytes \<Rightarrow> world \<Rightarrow> (exn + unit) \<times> world" where
  "write_bytes E p data w =
     (case write_fault E w p data of
        Some e \<Rightarrow> (Inl e, w)
      | None \<Rightarrow> (Inr (), w\<lparr>files := (files w)(p \<mapsto> data), writes := writes w @ [(p, data)]\<rparr>))"

text \<open>
  The two statements that always come together in the script:
  \<open>output_path.parent.mkdir(parents=True, exist_ok=True)\<close> and
  \<open>output_path.write_bytes(data)\<close>.
\<close>

definition save :: "env \<Rightarrow> path \<Rightarrow> bytes \<Rightarrow> world \<Rightarrow> (exn + unit) \<times> world" where
  "save E p data w =
     (case mkdir_parents E (parent p) w of
        (Inl e, w1) \<Rightarrow> (Inl e, w1)
      | (Inr u, w1) \<Rightarrow> write_bytes E p data w1)"

text \<open>
  \<open>dir / zip_name / file_path\<close>. The middle operand is the stem of a name, which has no
  slash, so the first join appends; the entry path may be absolute and then replaces
  everything before it.
\<close>

definition output_path :: "path \<Rightarrow> string \<Rightarrow> path \<Rightarrow> path" where
  "output_path d zn fp = joinpath (d @ str_path zn) fp"

section \<open>compress_pdf_in_memory\<close>

text \<open>
  The Ghostscript command line is fixed; the process is the field \<open>gs\<close>. A failure to start
  or to communicate, a non-zero return code and a diagnostic stream that does not decode
  all end in the same handler, which raises \<open>Compression failed: \<close> followed by the message.
\<close>

definition compress_pdf_in_memory :: "env \<Rightarrow> bytes \<Rightarrow> exn + bytes" where
  "compress_pdf_in_memory E pdf_data =
     (case gs E pdf_data of
        Inl e \<Rightarrow> Inl (''Compression failed: '' @ e)
      | Inr (returncode, compressed_data, stderr) \<Rightarrow>
          if returncode \<noteq> 0 then
            (case decode E stderr of
               Inl e \<Rightarrow> Inl (''Compression failed: '' @ e)
             | Inr msg \<Rightarrow> Inl (''Compression failed: '' @ (''Ghostscript error: '' @ msg)))
          else Inr compressed_data)"

section \<open>is_scanned_pdf\<close>

text \<open>The characters \<open>str.isspace\<close> accepts, which \<open>str.strip()\<close> removes at both ends.\<close>

definition py_isspace :: "nat \<Rightarrow> bool" where
  "py_isspace c =
     ((9 \<le> c \<and> c \<le> 13) \<or> (28 \<le> c \<and> c \<le> 32) \<or> c = 133 \<or> c = 160 \<or> c = 5760
      \<or> (8192 \<le> c \<and> c \<le> 8202) \<or> c = 8232 \<or> c = 8233 \<or> c = 8239 \<or> c = 8287
      \<or> c = 12288)"

definition strip :: "pystr \<Rightarrow> pystr" where
  "strip s = rev (dropWhile py_isspace (rev (dropWhile py_isspace s)))"

definition load_page :: "document \<Rightarrow> nat \<Rightarrow> exn + page" where
  "load_page doc i = (if i < length doc then doc ! i else Inl ''page not in document'')"

text \<open>
  \<open>random.sample(range(total_pages), n)\<close> raises \<open>ValueError\<close> when \<open>n\<close> is negative or
  larger than the population; otherwise the generator chooses.
\<close>

definition random_sample :: "env \<Rightarrow> nat \<Rightarrow> int \<Rightarrow> exn + nat list" where
  "random_sample E total_pages n =
     (if n < 0 \<or> int total_pages < n
      then Inl ''Sample larger than population or is negative''
      else Inr (rng E total_pages (nat n)))"

text \<open>
  The loop over the sampled pages. \<open>Inr b\<close> is a \<open>return b\<close>, \<open>Inl e\<close> an exception of
  \<open>load_page\<close>, \<open>get_text\<close> or \<open>get_images\<close>.
\<close>

fun check_pages :: "document \<Rightarrow> nat list \<Rightarrow> exn + bool" where
  "check_pages doc [] = Inr True"
| "check_pages doc (page_num # rest) =
     (case load_page doc page_num of
        Inl e \<Rightarrow> Inl e
      | Inr pg \<Rightarrow>
          (case get_text pg of
             Inl e \<Rightarrow> Inl e
           | Inr txt \<Rightarrow>
               if strip txt \<noteq> [] then Inr False
               else (case get_images pg of
                       Inl e \<Rightarrow> Inl e
                     | Inr imgs \<Rightarrow>
                         if imgs = [] then Inr False else check_pages doc rest)))"

definition is_scanned_pdf :: "env \<Rightarrow> bytes \<Rightarrow> int \<Rightarrow> bool" where
  "is_scanned_pdf E pdf_data num_pages_to_check =
     (case fitz_open E pdf_data of
        Inl e \<Rightarrow> False
      | Inr doc \<Rightarrow>
          if length doc = 0 then False
          else (case random_sample E (length doc) (min num_pages_to_check (int (length doc))) of
                  Inl e \<Rightarrow> False
                | Inr sample_pages \<Rightarrow>
                    (case check_pages doc sample_pages of
                       Inl e \<Rightarrow> False
                     | Inr b \<Rightarrow> b)))"

section \<open>process_file\<close>

text \<open>
  Python's \<open>/\<close> on floats raises \<open>ZeroDivisionError\<close> on a zero divisor.
\<close>

definition truediv :: "real \<Rightarrow> real \<Rightarrow> exn + real" where
  "truediv a b = (if b = 0 then Inl ''float division by zero'' else Inr (a / b))"

definition kb :: "bytes \<Rightarrow> real" where
  "kb data = real (length data) / 1024"

text \<open>
  The handler of the inner \<open>try\<close> (lines 158 to 163): it saves the original bytes in the
  failure directory and raises \<open>Compression failed: \<close> followed by the message. An exception
  of its own \<open>mkdir\<close> or \<open>write_bytes\<close> replaces that one.
\<close>

definition compression_handler ::
  "env \<Rightarrow> path \<Rightarrow> bytes \<Rightarrow> exn \<Rightarrow> world \<Rightarrow> (exn + result) \<times> world" where
  "compression_handler E fail_path file_data e w =
     (case save E fail_path file_data w of
        (Inl e', w1) \<Rightarrow> (Inl e', w1)
      | (Inr u, w1) \<Rightarrow> (Inl (''Compression failed: '' @ e), w1))"

text \<open>
  The inner \<open>try\<close> (lines 135 to 163). The dictionary given to \<open>result.update\<close> is built
  after the file is written, so a division by zero there leaves \<open>result\<close> as it was and
  enters the handler with the file already written.
\<close>

definition attempt_compression ::
  "env \<Rightarrow> bytes \<Rightarrow> result \<Rightarrow> path \<Rightarrow> path \<Rightarrow> world \<Rightarrow> (exn + result) \<times> world" where
  "attempt_compression E file_data res comp_path fail_path w =
     (case compress_pdf_in_memory E file_data of
        Inl e \<Rightarrow> compression_handler E fail_path file_data e w
      | Inr compressed_data \<Rightarrow>
          (let save_data = (if kb compressed_data < original_size res
                            then compressed_data else file_data);
               compression_status = (if kb compressed_data < original_size res
                                     then ''compressed'' else ''uncompressed (larger size)'')
           in case save E comp_path save_data w of
                (Inl e, w1) \<Rightarrow> compression_handler E fail_path file_data e w1
              | (Inr u, w1) \<Rightarrow>
                  (case truediv (original_size res - kb save_data) (original_size res) of
                     Inl e \<Rightarrow> compression_handler E fail_path file_data e w1
                   | Inr q \<Rightarrow>
                       (Inr (res\<lparr>status := ''success ('' @ compression_status @ '')'',
                                 compressed_size := kb save_data,
                                 compression_ratio := q * 100\<rparr>), w1))))"

text \<open>
  The handler of the outer \<open>try\<close> (lines 165 to 174). \<open>file_data\<close> is \<open>None\<close> when the name
  is not bound (\<open>'file_data' in locals()\<close> is false). Nothing catches an exception of its
  \<open>mkdir\<close> or \<open>write_bytes\<close>: it leaves \<open>process_file\<close>.
\<close>

definition failure_handler ::
  "env \<Rightarrow> path \<Rightarrow> bytes option \<Rightarrow> result \<Rightarrow> exn \<Rightarrow> world \<Rightarrow> (exn + result) \<times> world" where
  "failure_handler E fail_path file_data res e w =
     (let res' = res\<lparr>status := ''failed: '' @ e, error := e,
                     compressed_size := original_size res\<rparr>
      in case save E fail_path (case file_data of Some d \<Rightarrow> d | None \<Rightarrow> []) w of
           (Inl e', w1) \<Rightarrow> (Inl e', w1)
         | (Inr u, w1) \<Rightarrow> (Inr res', w1))"

text \<open>
  \<open>process_file\<close>. The value is what the call returns (\<open>Inr\<close>) or the exception that leaves
  it (\<open>Inl\<close>), with the file system after the call.
\<close>

definition process_file ::
  "env \<Rightarrow> path \<times> path \<times> path \<times> path \<times> path \<Rightarrow> world \<Rightarrow> (exn + result) \<times> world" where
  "process_file E args w =
     (case args of (zip_path, fpath, compressed_dir, scanned_dir, failure_dir) \<Rightarrow>
        (let zn = stem zip_path;
             res = \<lparr>zip_name = zn, file_path = path_str fpath, status = ''failed'',
                    original_size = 0, compressed_size = 0, compression_ratio = 0,
                    error = []\<rparr>;
             fail_path = output_path failure_dir zn fpath
         in case zip_read E zip_path (path_str fpath) of
              Inl e \<Rightarrow> failure_handler E fail_path None res e w
            | Inr file_data \<Rightarrow>
                (let res1 = res\<lparr>original_size := kb file_data\<rparr>
                 in case fitz_open E file_data of
                      Inl e \<Rightarrow>
                        failure_handler E fail_path (Some file_data) res1
                          (''Invalid PDF: '' @ e) w
                    | Inr doc \<Rightarrow>
                        if is_scanned_pdf E file_data 3 then
                          (case save E (output_path scanned_dir zn fpath) file_data w of
                             (Inl e, w1) \<Rightarrow>
                               failure_handler E fail_path (Some file_data) res1 e w1
                           | (Inr u, w1) \<Rightarrow>
                               (Inr (res1\<lparr>status := ''success (scanned)'',
                                          compressed_size := original_size res1\<rparr>), w1))
                        else
                          (case attempt_compression E file_data res1
                                  (output_path compressed_dir zn fpath) fail_path w of
                             (Inl e, w1) \<Rightarrow>
                               failure_handler E fail_path (Some file_data) res1 e w1
                           | (Inr r, w1) \<Rightarrow> (Inr r, w1)))))"

section \<open>Conditions on the environment\<close>

text \<open>The output file system is reliable: no \<open>mkdir\<close> and no \<open>write_bytes\<close> raises.\<close>

definition fs_ok :: "env \<Rightarrow> bool" where
  "fs_ok E = (\<forall>w p. mkdir_fault E w p = None \<and> (\<forall>d. write_fault E w p d = None))"



text \<open>The page indices drawn for a document and a sample count.\<close>

definition sampled_pages :: "env \<Rightarrow> document \<Rightarrow> int \<Rightarrow> nat list" where
  "sampled_pages E doc k = rng E (length doc) (nat (min k (int (length doc))))"

text \<open>
  A page as the classifier wants it: it loads, its text is empty once stripped of
  leading and trailing whitespace, and it has an image.
\<close>

definition blank_with_image :: "exn + page \<Rightarrow> bool" where
  "blank_with_image slot =
     (case slot of
        Inl e \<Rightarrow> False
      | Inr pg \<Rightarrow>
          (case get_text pg of Inl e \<Rightarrow> False | Inr txt \<Rightarrow> strip txt = [])
          \<and> (case get_images pg of Inl e \<Rightarrow> False | Inr imgs \<Rightarrow> imgs \<noteq> []))"

text \<open>
  The classifier in the words of the specification, where the test on the text is that the
  extracted text is empty: the document opens, has a page, and every sampled page has
  empty text and an image.
\<close>

definition spec_page_scanned :: "exn + page \<Rightarrow> bool" where
  "spec_page_scanned slot =
     (case slot of
        Inl e \<Rightarrow> False
      | Inr pg \<Rightarrow>
          (case get_text pg of Inl e \<Rightarrow> False | Inr txt \<Rightarrow> txt = [])
          \<and> (case get_images pg of Inl e \<Rightarrow> False | Inr imgs \<Rightarrow> imgs \<noteq> []))"

definition spec_is_scanned :: "env \<Rightarrow> bytes \<Rightarrow> int \<Rightarrow> bool" where
  "spec_is_scanned E pdf_data k =
     (case fitz_open E pdf_data of
        Inl e \<Rightarrow> False
      | Inr doc \<Rightarrow>
          0 < length doc
          \<and> list_all (\<lambda>i. spec_page_scanned (load_page doc i)) (sampled_pages E doc k))"


section \<open>A concrete archive\<close>

text \<open>
  The archive \<open>in/a.zip\<close> with six entries, the documents they open as, and a Ghostscript
  that halves \<open>x.pdf\<close>, doubles \<open>big.pdf\<close> and fails on everything else.
\<close>

definition text_page :: page where
  "text_page = \<lparr>get_text = Inr [72, 105], get_images = Inr []\<rparr>"

definition scan_page :: page where
  "scan_page = \<lparr>get_text = Inr [], get_images = Inr [7]\<rparr>"

definition ws_page :: page where
  "ws_page = \<lparr>get_text = Inr [32, 10], get_images = Inr [7]\<rparr>"

definition env0 :: env where
  "env0 =
     \<lparr>zip_read = (\<lambda>zp nm.
          if nm = ''x.pdf'' then Inr [1, 1, 1, 1]
          else if nm = ''scan.pdf'' then Inr [2, 2, 2]
          else if nm = ''bad.pdf'' then Inr [0, 7]
          else if nm = ''y.pdf'' then Inr [3, 3]
          else if nm = ''big.pdf'' then Inr [4]
          else if nm = ''ws.pdf'' then Inr [5]
          else Inl ''There is no item named that in the archive''),
      fitz_open = (\<lambda>d.
          if d = [] then Inl ''Cannot open empty stream.''
          else if hd d = 0 then Inl ''Failed to open stream''
          else if hd d = 2 then Inr [Inr scan_page, Inr scan_page, Inr scan_page]
          else if hd d = 5 then Inr [Inr ws_page]
          else Inr [Inr text_page]),
      rng = (\<lambda>total_pages n. take n (rev [0..<total_pages])),
      gs = (\<lambda>d.
          if hd d = 1 then Inr (0, [1, 1], [])
          else if hd d = 4 then Inr (0, [4, 4], [])
          else Inr (1, [], [69])),
      decode = (\<lambda>b. Inr ''Unrecoverable error''),
      mkdir_fault = (\<lambda>w p. None),
      write_fault = (\<lambda>w p d. None)\<rparr>"




section \<open>Auxiliary facts\<close>

lemma save_ok:
  "fs_ok E \<Longrightarrow> save E p d w =
     (Inr (), w\<lparr>dirs := dirs w \<union> set (ancestors (parent p)),
                files := (files w)(p \<mapsto> d), writes := writes w @ [(p, d)]\<rparr>)"
  by (simp add: fs_ok_def save_def mkdir_parents_def write_bytes_def)






lemma output_path_relative:
  "\<not> is_absolute fp \<Longrightarrow> output_path d zn fp = d @ str_path zn @ fp"
  by (simp add: output_path_def joinpath_def)


lemma check_pages_all:
  "(case check_pages doc idxs of Inl e \<Rightarrow> False | Inr b \<Rightarrow> b)
     = (\<forall>i\<in>set idxs. blank_with_image (load_page doc i))"
  by (induction idxs) (auto simp add: blank_with_image_def split: sum.splits)

text \<open>
  Every exception of the compressor carries the prefix of its own handler, so the status
  of a compression failure repeats it.
\<close>

lemma compress_error_prefix:
  "compress_pdf_in_memory E d = Inl detail \<Longrightarrow> take 20 detail = ''Compression failed: ''"
  by (auto simp add: compress_pdf_in_memory_def split: sum.splits prod.splits if_splits)

text \<open>
  The handler of the outer \<open>try\<close> is not protected: when the entry cannot be read and the
  failure directory cannot be made, the exception of \<open>mkdir\<close> leaves \<open>process_file\<close>.
\<close>

lemma failure_write_fault_escapes:
  assumes "zip_read E zip_path (path_str fpath) = Inl e"
    and "mkdir_fault E w (parent (output_path failure_dir (stem zip_path) fpath)) = Some e'"
  shows "process_file E (zip_path, fpath, compressed_dir, scanned_dir, failure_dir) w
           = (Inl e', w)"
  using assms
  by (simp add: process_file_def failure_handler_def save_def mkdir_parents_def Let_def)

text \<open>
  Nothing in the script itself keeps the original size away from zero. With an opener
  that accepts an empty stream, an empty entry reaches the ratio after its file is
  written in the compressed bucket; the division raises inside the inner \<open>try\<close>, and both
  handlers then write the entry in the failure bucket.
\<close>

lemma empty_entry_divides_by_zero:
  assumes fs: "fs_ok E"
    and rel: "\<not> is_absolute fpath"
    and rd: "zip_read E zip_path (path_str fpath) = Inr []"
    and ok: "fitz_open E [] = Inr doc"
    and nsc: "\<not> is_scanned_pdf E [] 3"
    and cmp: "compress_pdf_in_memory E [] = Inr c"
  shows "\<exists>r w'. process_file E (zip_path, fpath, compressed_dir, scanned_dir, failure_dir) w
                   = (Inr r, w')
           \<and> status r = ''failed: Compression failed: float division by zero''
           \<and> writes w'
               = writes w @ [(compressed_dir @ str_path (stem zip_path) @ fpath, []),
                             (failure_dir @ str_path (stem zip_path) @ fpath, []),
                             (failure_dir @ str_path (stem zip_path) @ fpath, [])]"
  using rd ok nsc cmp
  by (simp add: process_file_def attempt_compression_def compression_handler_def
      failure_handler_def truediv_def kb_def save_ok [OF fs] output_path_relative [OF rel]
      Let_def)

subsection \<open>The concrete archive\<close>






lemma env0_open:
  "fitz_open env0 [1, 1, 1, 1] = Inr [Inr text_page]"
  "fitz_open env0 [2, 2, 2] = Inr [Inr scan_page, Inr scan_page, Inr scan_page]"
  "fitz_open env0 [0, 7] = Inl ''Failed to open stream''"
  "fitz_open env0 [3, 3] = Inr [Inr text_page]"
  "fitz_open env0 [4] = Inr [Inr text_page]"
  by (simp_all add: env0_def)

lemma env0_sample3: "sampled_pages env0 [a, b, c] 3 = [2, 1, 0]"
  by (simp add: sampled_pages_def env0_def eval_nat_numeral)




section \<open>The outcomes of process_file\<close>

text \<open>
  In this section the entry path is relative (the task of the specification holds an
  entry relative path), the output file system is reliable where a file is claimed to be
  written, and \<open>bucket @ str_path (stem zip_path) @ fpath\<close> is the path
  \<open>bucket/zip_name/entry\<close>.
\<close>

















section \<open>The writes of a run\<close>




section \<open>The classifier\<close>

text \<open>
  Claim C2, as the code has it: for every byte string, every sample count and every
  choice of the random generator, \<open>is_scanned_pdf\<close> returns true if and only if the bytes
  open as a document with at least one page, the sample count is not negative, and every
  sampled page loads, has a text that is empty once leading and trailing whitespace is
  stripped, and has at least one image. It returns false in every other case, any
  exception included, and raises nothing.
\<close>

theorem is_scanned_pdf_iff:
  "is_scanned_pdf E pdf_data k
     \<longleftrightarrow> (\<exists>doc. fitz_open E pdf_data = Inr doc \<and> 0 \<le> k \<and> 0 < length doc
               \<and> (\<forall>i\<in>set (sampled_pages E doc k). blank_with_image (load_page doc i)))"
proof (cases "fitz_open E pdf_data")
  case (Inl e)
  then show ?thesis by (simp add: is_scanned_pdf_def)
next
  case (Inr doc)
  show ?thesis
  proof (cases "0 \<le> k \<and> 0 < length doc")
    case True
    then have "random_sample E (length doc) (min k (int (length doc)))
                 = Inr (sampled_pages E doc k)"
      by (simp add: random_sample_def sampled_pages_def min_def)
    with Inr True show ?thesis
      by (simp add: is_scanned_pdf_def check_pages_all)
  next
    case False
    with Inr show ?thesis
      by (auto simp add: is_scanned_pdf_def random_sample_def)
  qed
qed

theorem is_scanned_pdf_iff_witness:
  "fitz_open env0 [2, 2, 2] = Inr [Inr scan_page, Inr scan_page, Inr scan_page]
   \<and> sampled_pages env0 [Inr scan_page, Inr scan_page, Inr scan_page] 3 = [2, 1, 0]
   \<and> blank_with_image (load_page [Inr scan_page, Inr scan_page, Inr scan_page] 2)
   \<and> blank_with_image (load_page [Inr scan_page, Inr scan_page, Inr scan_page] 1)
   \<and> blank_with_image (load_page [Inr scan_page, Inr scan_page, Inr scan_page] 0)
   \<and> is_scanned_pdf env0 [2, 2, 2] 3"
proof -
  have pages:
    "blank_with_image (load_page [Inr scan_page, Inr scan_page, Inr scan_page] 2)"
    "blank_with_image (load_page [Inr scan_page, Inr scan_page, Inr scan_page] 1)"
    "blank_with_image (load_page [Inr scan_page, Inr scan_page, Inr scan_page] 0)"
    by (simp_all add: blank_with_image_def load_page_def scan_page_def strip_def)
  then have "is_scanned_pdf env0 [2, 2, 2] 3"
    using is_scanned_pdf_iff [of env0 "[2, 2, 2]" 3]
    by (simp add: env0_open env0_sample3)
  with pages show ?thesis
    by (simp add: env0_open env0_sample3)
qed

text \<open>
  With the test that the extracted text is empty, as the specification words it, the
  statement fails: the one page of \<open>ws.pdf\<close> has the text of a space and a line feed and
  an image, and the classifier returns true.
\<close>

theorem is_scanned_pdf_counterexample:
  "is_scanned_pdf env0 [5] 3 \<and> \<not> spec_is_scanned env0 [5] 3"
  by (simp add: is_scanned_pdf_def spec_is_scanned_def spec_page_scanned_def
      sampled_pages_def random_sample_def load_page_def env0_def ws_page_def strip_def
      py_isspace_def)

end
